theory Spec2Isabelle
  imports Main
begin

section \<open>Python exceptions and effects\<close>

text \<open>
  The three handlers of the sources distinguish exceptions by class only:
  \<^verbatim>\<open>except ValueError\<close> first, \<^verbatim>\<open>except Exception\<close> second.
  \<open>AttributeError\<close> is what a lookup of a missing attribute raises;
  \<open>OtherException\<close> stands for every other class that is not a \<open>ValueError\<close>.
  The string is \<^verbatim>\<open>str(e)\<close>.
\<close>

datatype exn = ValueError string | AttributeError string | OtherException string

fun str_exn :: "exn \<Rightarrow> string" where
  "str_exn (ValueError m) = m"
| "str_exn (AttributeError m) = m"
| "str_exn (OtherException m) = m"

fun isinstance_ValueError :: "exn \<Rightarrow> bool" where
  "isinstance_ValueError (ValueError m) = True"
| "isinstance_ValueError (AttributeError m) = False"
| "isinstance_ValueError (OtherException m) = False"

subsection \<open>a2a types used by the executor\<close>

text \<open>
  Modelled from the spec: the a2a library (\<open>Part\<close>, \<open>TaskState\<close>, \<open>TaskUpdater\<close>,
  \<open>EventQueue\<close>, \<open>new_agent_text_message\<close>) is imported by agent\_executor.py and is
  not part of the sources. The inbound shape is the one of section 6 of the
  specification, read through the accesses the source makes:
  \<^verbatim>\<open>message_parts[0].root\<close> and \<^verbatim>\<open>message_parts[0].root.text\<close> (the field \<open>part_text\<close>).
\<close>

record TextPart =
  part_text :: "string option"

record Part =
  root :: "TextPart option"

datatype TaskState = Submitted | Working | InputRequired | Completed | Failed | Canceled

record Message =
  message_text :: string
  message_context_id :: string

definition new_agent_text_message :: "string \<Rightarrow> string \<Rightarrow> Message" where
  "new_agent_text_message t cid = \<lparr>message_text = t, message_context_id = cid\<rparr>"

record TaskStatusUpdateEvent =
  event_task_id :: string
  event_context_id :: string
  event_state :: TaskState
  event_message :: "Message option"

record RequestContext =
  task_id :: string
  context_id :: string
  message :: "Part list"

subsection \<open>agent.py: the data of the title agent\<close>

record AgentsClient =
  endpoint :: "string option"

record Agent =
  agent_id :: string

record TitleAgent =
  client :: AgentsClient
  agent :: "Agent option"

datatype MessageRole = USER | AGENT

datatype ListSortOrder = ASCENDING | DESCENDING

record AgentThread =
  thread_id :: string

record ThreadRun =
  status :: string
  last_error :: string

record MessageTextContent =
  text_value :: string

record ThreadMessage =
  role :: MessageRole
  text_messages :: "MessageTextContent list"

text \<open>
  The Azure AI Agents SDK and the process environment are external: every call
  the sources make to them is a field of \<open>Azure\<close>, giving the outcome of the call
  (an exception or a value). The theorems quantify over all such records.
\<close>

record Azure =
  getenv :: "string \<Rightarrow> string option"
  AgentsClient_new :: "string option \<Rightarrow> exn + AgentsClient"
  client_create_agent :: "string option \<Rightarrow> string \<Rightarrow> string \<Rightarrow> exn + Agent"
  threads_create :: "exn + AgentThread"
  messages_create :: "string \<Rightarrow> MessageRole \<Rightarrow> string \<Rightarrow> exn + unit"
  runs_create_and_process :: "string \<Rightarrow> string \<Rightarrow> exn + ThreadRun"
  messages_list :: "string \<Rightarrow> ListSortOrder \<Rightarrow> exn + ThreadMessage list"

datatype call =
    Call_AgentsClient
  | Call_create_agent
  | Call_threads_create
  | Call_messages_create
  | Call_runs_create_and_process
  | Call_messages_list

subsection \<open>The state the code runs in\<close>

text \<open>
  \<open>foundry_agent\<close> is the field \<^verbatim>\<open>self._foundry_agent\<close> of the executor,
  \<open>event_queue\<close> the events published so far, \<open>stdout\<close> what \<^verbatim>\<open>print\<close> has
  written, and \<open>calls\<close> the calls made to the external service, in order.
\<close>

record state =
  foundry_agent :: "TitleAgent option"
  event_queue :: "TaskStatusUpdateEvent list"
  stdout :: "string list"
  calls :: "call list"

type_synonym 'a prog = "state \<Rightarrow> (exn + 'a) \<times> state"

definition return_value :: "'a \<Rightarrow> 'a prog" where
  "return_value x = (\<lambda>s. (Inr x, s))"

definition raise :: "exn \<Rightarrow> 'a prog" where
  "raise e = (\<lambda>s. (Inl e, s))"

definition seq :: "'a prog \<Rightarrow> ('a \<Rightarrow> 'b prog) \<Rightarrow> 'b prog" where
  "seq m f = (\<lambda>s. case m s of (Inl e, s') \<Rightarrow> (Inl e, s') | (Inr x, s') \<Rightarrow> f x s')"

definition try_except :: "'a prog \<Rightarrow> (exn \<Rightarrow> 'a prog) \<Rightarrow> 'a prog" where
  "try_except m h = (\<lambda>s. case m s of (Inl e, s') \<Rightarrow> h e s' | (Inr x, s') \<Rightarrow> (Inr x, s'))"

definition print :: "string \<Rightarrow> unit prog" where
  "print line = (\<lambda>s. (Inr (), s\<lparr>stdout := stdout s @ [line]\<rparr>))"

definition external :: "call \<Rightarrow> exn + 'a \<Rightarrow> 'a prog" where
  "external c outcome = (\<lambda>s. (outcome, s\<lparr>calls := calls s @ [c]\<rparr>))"

section \<open>agent.py\<close>

definition TitleAgent_init :: "Azure \<Rightarrow> TitleAgent prog" where
  "TitleAgent_init az =
     seq (external Call_AgentsClient (AgentsClient_new az (getenv az ''AGENT_ENDPOINT'')))
       (\<lambda>c. return_value \<lparr>client = c, agent = None\<rparr>)"

definition title_agent_instructions :: string where
  "title_agent_instructions =
     ''You are a helpful AI assistant that generates creative and concise titles. '' @
     ''Based on user input or content, generate an appropriate title that captures '' @
     ''the essence of the topic. Keep titles brief, engaging, and professional.''"

text \<open>
  \<^verbatim>\<open>create_agent\<close> returns the cached agent, or creates one and stores it in
  \<^verbatim>\<open>self.agent\<close>; the model returns the agent together with the updated object.
\<close>

definition create_agent :: "Azure \<Rightarrow> TitleAgent \<Rightarrow> (Agent \<times> TitleAgent) prog" where
  "create_agent az self =
     (case agent self of
        Some a \<Rightarrow> return_value (a, self)
      | None \<Rightarrow>
          seq (external Call_create_agent
                 (client_create_agent az (getenv az ''MODEL_DEPLOYMENT_NAME'')
                    ''title-agent'' title_agent_instructions))
            (\<lambda>a. return_value (a, self\<lparr>agent := Some a\<rparr>)))"

text \<open>
  The loop of \<^verbatim>\<open>run_conversation\<close> over the listed messages: the texts of the first
  message of role \<open>AGENT\<close> that has text messages, and nothing after the \<^verbatim>\<open>break\<close>.
\<close>

fun collect_responses :: "ThreadMessage list \<Rightarrow> string list" where
  "collect_responses [] = []"
| "collect_responses (msg # messages) =
     (if role msg = AGENT \<and> text_messages msg \<noteq> []
      then map text_value (text_messages msg)
      else collect_responses messages)"

definition run_conversation :: "Azure \<Rightarrow> TitleAgent \<Rightarrow> string \<Rightarrow> (string list \<times> TitleAgent) prog" where
  "run_conversation az self0 user_message =
     seq (case agent self0 of
            None \<Rightarrow> seq (create_agent az self0) (\<lambda>(a, self'). return_value self')
          | Some a \<Rightarrow> return_value self0)
       (\<lambda>self.
     seq (external Call_threads_create (threads_create az))
       (\<lambda>thread.
     seq (external Call_messages_create
            (messages_create az (thread_id thread) USER user_message))
       (\<lambda>u.
     seq (case agent self of
            None \<Rightarrow> raise (AttributeError ''NoneType object has no attribute id'')
          | Some a \<Rightarrow>
              external Call_runs_create_and_process
                (runs_create_and_process az (thread_id thread) (agent_id a)))
       (\<lambda>run.
     if status run = ''failed''
     then seq (print (''Title Agent: Run failed - '' @ last_error run))
            (\<lambda>u. return_value ([''Error: '' @ last_error run], self))
     else
       seq (external Call_messages_list (messages_list az (thread_id thread) DESCENDING))
         (\<lambda>messages.
            let responses = collect_responses messages
            in return_value
                 (if responses \<noteq> [] then responses else [''No response received''], self))))))"

definition create_foundry_title_agent :: "Azure \<Rightarrow> TitleAgent prog" where
  "create_foundry_title_agent az =
     seq (TitleAgent_init az)
       (\<lambda>self. seq (create_agent az self) (\<lambda>(a, self'). return_value self'))"

text \<open>
  The class \<open>TitleAgent\<close> of agent.py defines \<^verbatim>\<open>__init__\<close>, \<^verbatim>\<open>create_agent\<close> and
  \<^verbatim>\<open>run_conversation\<close>, and its instances carry \<^verbatim>\<open>client\<close> and \<^verbatim>\<open>agent\<close>. It has
  no attribute \<^verbatim>\<open>generate_title\<close> and no \<^verbatim>\<open>__getattr__\<close>, so evaluating
  \<^verbatim>\<open>agent.generate_title(user_message)\<close> raises \<open>AttributeError\<close> at the lookup,
  before any call is made.
\<close>

definition TitleAgent_generate_title :: "TitleAgent \<Rightarrow> string \<Rightarrow> exn + string" where
  "TitleAgent_generate_title self user_message =
     Inl (AttributeError ''TitleAgent object has no attribute generate_title'')"

section \<open>agent\_executor.py\<close>

subsection \<open>TaskUpdater\<close>

text \<open>
  Modelled from the spec: \<open>TaskUpdater\<close> belongs to the a2a library. The source
  builds one from the event queue and the two identifiers of the request, and
  nothing else; by section 4.3 of the specification each transition publishes
  exactly one event to the task's event stream, in transition order. The event
  queue is the \<open>event_queue\<close> of the state.
\<close>

record TaskUpdater =
  updater_task_id :: string
  updater_context_id :: string

definition update_status :: "TaskUpdater \<Rightarrow> TaskState \<Rightarrow> Message option \<Rightarrow> unit prog" where
  "update_status u st m =
     (\<lambda>s. (Inr (),
            s\<lparr>event_queue := event_queue s @
                [\<lparr>event_task_id = updater_task_id u, event_context_id = updater_context_id u,
                  event_state = st, event_message = m\<rparr>]\<rparr>))"

definition submit :: "TaskUpdater \<Rightarrow> unit prog" where
  "submit u = update_status u Submitted None"

definition start_work :: "TaskUpdater \<Rightarrow> unit prog" where
  "start_work u = update_status u Working None"

definition running :: "TaskUpdater \<Rightarrow> unit prog" where
  "running u = update_status u Working None"

definition completed :: "TaskUpdater \<Rightarrow> Message \<Rightarrow> unit prog" where
  "completed u m = update_status u Completed (Some m)"

definition failed :: "TaskUpdater \<Rightarrow> Message \<Rightarrow> unit prog" where
  "failed u m = update_status u Failed (Some m)"

subsection \<open>FoundryAgentExecutor\<close>

text \<open>
  \<open>get_or_create_agent\<close> and \<open>process_request\<close> are the methods
  \<^verbatim>\<open>_get_or_create_agent\<close> and \<^verbatim>\<open>_process_request\<close>. \<^verbatim>\<open>execute\<close> passes
  \<^verbatim>\<open>context.message\<close> as the \<^verbatim>\<open>message_parts\<close> of \<^verbatim>\<open>_process_request\<close>, which
  declares them a list of parts; the field \<open>message\<close> of the request context is
  that list. The texts of the exceptions Python raises by itself are written
  without their quotation marks.
\<close>

definition get_or_create_agent :: "Azure \<Rightarrow> TitleAgent prog" where
  "get_or_create_agent az =
     (\<lambda>s. case foundry_agent s of
             Some a \<Rightarrow> (Inr a, s)
           | None \<Rightarrow>
               (case create_foundry_title_agent az s of
                  (Inl e, s') \<Rightarrow> (Inl e, s')
                | (Inr a, s') \<Rightarrow> (Inr a, s'\<lparr>foundry_agent := Some a\<rparr>)))"

text \<open>Lines 74 to 83 of \<^verbatim>\<open>_process_request\<close>: the two checks and the text they let through.\<close>

definition validate_message_parts :: "Part list \<Rightarrow> exn + string" where
  "validate_message_parts message_parts =
     (case message_parts of
        [] \<Rightarrow> Inl (ValueError ''No message parts provided'')
      | p # ps \<Rightarrow>
          (case root p of
             None \<Rightarrow> Inl (ValueError ''Message part does not contain text'')
           | Some r \<Rightarrow>
               (case part_text r of
                  None \<Rightarrow> Inl (ValueError ''Message part does not contain text'')
                | Some t \<Rightarrow>
                    if t = [] then Inl (ValueError ''Message part does not contain text'')
                    else Inr t)))"

text \<open>
  \<^verbatim>\<open>_process_request\<close>. The first argument is the outcome of evaluating
  \<^verbatim>\<open>await agent.generate_title(user_message)\<close> on the agent obtained; for the class
  of agent.py it is \<open>TitleAgent_generate_title\<close>.
\<close>

definition process_request ::
  "(TitleAgent \<Rightarrow> string \<Rightarrow> exn + string) \<Rightarrow> Azure \<Rightarrow> Part list \<Rightarrow> string \<Rightarrow> TaskUpdater \<Rightarrow> unit prog"
where
  "process_request generate_title az message_parts cid task_updater =
     try_except
       (seq (\<lambda>s. (validate_message_parts message_parts, s))
          (\<lambda>user_message.
        seq (get_or_create_agent az)
          (\<lambda>agent.
        seq (running task_updater)
          (\<lambda>u.
        seq (\<lambda>s. (generate_title agent user_message, s))
          (\<lambda>response.
        completed task_updater (new_agent_text_message response cid))))))
       (\<lambda>e.
          if isinstance_ValueError e
          then seq (print (''Title Agent: Validation error - '' @ str_exn e))
                 (\<lambda>u. failed task_updater
                         (new_agent_text_message (''Invalid request: '' @ str_exn e) cid))
          else seq (print (''Title Agent: Error processing request - '' @ str_exn e))
                 (\<lambda>u. failed task_updater
                         (new_agent_text_message ''Title Agent failed to process the request.'' cid)))"

definition execute ::
  "(TitleAgent \<Rightarrow> string \<Rightarrow> exn + string) \<Rightarrow> Azure \<Rightarrow> RequestContext \<Rightarrow> unit prog"
where
  "execute generate_title az context =
     (let updater = \<lparr>updater_task_id = task_id context, updater_context_id = context_id context\<rparr>
      in seq (submit updater)
           (\<lambda>u. seq (start_work updater)
                   (\<lambda>u. process_request generate_title az (message context)
                           (context_id context) updater)))"

definition cancel :: "RequestContext \<Rightarrow> unit prog" where
  "cancel context =
     seq (print (''Title Agent: Cancelling execution for context '' @ context_id context))
       (\<lambda>u. failed \<lparr>updater_task_id = task_id context, updater_context_id = context_id context\<rparr>
               (new_agent_text_message ''Task cancelled by user'' (context_id context)))"

subsection \<open>The transition table of the task lifecycle\<close>

text \<open>
  The table of section 4.3 of the specification, as a predicate on the previous
  state (\<open>None\<close> before any event) and the next one; \<open>working\<close> to \<open>working\<close> is
  the no-op the data model allows, and the three terminal states have no successor.
\<close>

fun terminal :: "TaskState \<Rightarrow> bool" where
  "terminal Completed = True"
| "terminal Failed = True"
| "terminal Canceled = True"
| "terminal Submitted = False"
| "terminal Working = False"
| "terminal InputRequired = False"

fun transition :: "TaskState option \<Rightarrow> TaskState \<Rightarrow> bool" where
  "transition None Submitted = True"
| "transition (Some Submitted) Working = True"
| "transition (Some Working) Working = True"
| "transition (Some Working) Completed = True"
| "transition (Some Working) Failed = True"
| "transition (Some Working) Canceled = True"
| "transition prev next = False"

fun valid_path :: "TaskState option \<Rightarrow> TaskState list \<Rightarrow> bool" where
  "valid_path prev [] = True"
| "valid_path prev (x # xs) = (transition prev x \<and> valid_path (Some x) xs)"

text \<open>The first part of a request carries text: the reading of the spec's words used for validation.\<close>

definition carries_text :: "Part \<Rightarrow> bool" where
  "carries_text p =
     (case root p of
        None \<Rightarrow> False
      | Some r \<Rightarrow> (case part_text r of None \<Rightarrow> False | Some t \<Rightarrow> t \<noteq> []))"

subsection \<open>A concrete request and service\<close>

definition initial_state :: state where
  "initial_state = \<lparr>foundry_agent = None, event_queue = [], stdout = [], calls = []\<rparr>"

definition title_request :: RequestContext where
  "title_request =
     \<lparr>task_id = ''task-1'', context_id = ''ctx-1'',
      message = [\<lparr>root = Some \<lparr>part_text = Some ''Generate a title for a blog about AI''\<rparr>\<rparr>]\<rparr>"

definition empty_request :: RequestContext where
  "empty_request = \<lparr>task_id = ''task-2'', context_id = ''ctx-2'', message = []\<rparr>"

text \<open>A service in which every call succeeds and the agent answers \<open>AI Today\<close>.\<close>

definition azure_ok :: Azure where
  "azure_ok =
     \<lparr>getenv = (\<lambda>name. Some ''value''),
      AgentsClient_new = (\<lambda>ep. Inr \<lparr>endpoint = ep\<rparr>),
      client_create_agent = (\<lambda>model name instructions. Inr \<lparr>agent_id = ''asst-1''\<rparr>),
      threads_create = Inr \<lparr>thread_id = ''thread-1''\<rparr>,
      messages_create = (\<lambda>tid r content. Inr ()),
      runs_create_and_process = (\<lambda>tid aid. Inr \<lparr>status = ''completed'', last_error = ''None''\<rparr>),
      messages_list = (\<lambda>tid order.
        Inr [\<lparr>role = AGENT, text_messages = [\<lparr>text_value = ''AI Today''\<rparr>]\<rparr>,
             \<lparr>role = USER, text_messages = [\<lparr>text_value = ''Generate a title for a blog about AI''\<rparr>]\<rparr>])\<rparr>"




section \<open>agents.py\<close>

subsection \<open>Messages and their display name\<close>

text \<open>
  \<open>ChatMessage\<close> and \<open>Role\<close> come from the agent\_framework library; the fields
  are the ones \<^verbatim>\<open>main\<close> reads (\<^verbatim>\<open>role\<close>, \<^verbatim>\<open>author_name\<close>, \<^verbatim>\<open>text\<close>) and the roles
  the ones of section 3 of the specification.
\<close>

datatype Role = Role_USER | Role_ASSISTANT | Role_SYSTEM

record ChatMessage =
  chat_role :: Role
  author_name :: "string option"
  chat_text :: string

text \<open>
  Line 139: \<^verbatim>\<open>msg.author_name or ("assistant" if msg.role == Role.ASSISTANT else "user")\<close>.
  Python's \<^verbatim>\<open>or\<close> takes the right operand when the left one is falsy: \<^verbatim>\<open>None\<close> or
  the empty string.
\<close>

definition display_name :: "ChatMessage \<Rightarrow> string" where
  "display_name msg =
     (case author_name msg of
        None \<Rightarrow> (if chat_role msg = Role_ASSISTANT then ''assistant'' else ''user'')
      | Some n \<Rightarrow>
          if n \<noteq> [] then n
          else (if chat_role msg = Role_ASSISTANT then ''assistant'' else ''user''))"

text \<open>
  Lines 132 to 142: the messages of the last output, numbered from 1, each with its
  display name and text (the three values the \<^verbatim>\<open>print\<close> of line 142 formats).
\<close>

definition display :: "ChatMessage list list \<Rightarrow> (nat \<times> string \<times> string) list" where
  "display outputs =
     (if outputs = [] then []
      else map (\<lambda>(i, msg). (i, display_name msg, chat_text msg))
             (zip [1 ..< Suc (length (last outputs))] (last outputs)))"

subsection \<open>Collecting the outputs of the workflow\<close>



subsection \<open>The sequential pipeline\<close>

text \<open>
  Modelled from the spec: the pipeline itself (\<^verbatim>\<open>SequentialBuilder\<close> and
  \<^verbatim>\<open>run_stream\<close>, called at lines 112 and 121) belongs to the agent\_framework
  library and is not part of the sources. Sections 3, 4.1 and 6 of the
  specification: an agent handle, given the conversation so far, returns zero or
  more new messages or fails with an opaque error; a run seeds the conversation
  with one user message holding the input; each participant in list order is
  invoked with the entire conversation, its messages are appended, and one output
  event carrying exactly these messages and the index of the stage is emitted; if
  an invocation fails the pipeline aborts, no further stage runs, and the events
  already emitted remain. The result is the list of events emitted and the
  terminal signal: \<open>None\<close> for the normal end of the sequence, \<open>Some e\<close> for the
  pipeline-level error. The specification's \<^verbatim>\<open>run\<close> is \<open>run_pipeline\<close> here.
\<close>

type_synonym ConversationState = "ChatMessage list"

type_synonym AgentHandle = "ConversationState \<Rightarrow> exn + ChatMessage list"

record PipelineOutputEvent =
  stage_index :: nat
  stage_messages :: "ChatMessage list"

fun run_stages ::
  "nat \<Rightarrow> AgentHandle list \<Rightarrow> ConversationState \<Rightarrow> PipelineOutputEvent list \<times> exn option"
where
  "run_stages i [] conversation = ([], None)"
| "run_stages i (p # ps) conversation =
     (case p conversation of
        Inl e \<Rightarrow> ([], Some e)
      | Inr new \<Rightarrow>
          (case run_stages (Suc i) ps (conversation @ new) of
             (events, signal) \<Rightarrow> (\<lparr>stage_index = i, stage_messages = new\<rparr> # events, signal)))"





section \<open>Basic facts\<close>

lemmas prog_defs = return_value_def raise_def seq_def try_except_def print_def external_def

lemmas updater_defs =
  update_status_def submit_def start_work_def running_def completed_def failed_def

lemma validate_message_parts_error:
  "validate_message_parts parts = Inl e \<Longrightarrow>
     e = ValueError ''No message parts provided'' \<or>
     e = ValueError ''Message part does not contain text''"
  by (auto simp: validate_message_parts_def split: list.splits option.splits if_splits)

lemma process_request_invalid:
  assumes "validate_message_parts parts = Inl e"
  shows "process_request g az parts cid u s =
     (Inr (),
      s\<lparr>stdout := stdout s @ [''Title Agent: Validation error - '' @ str_exn e],
        event_queue := event_queue s @
          [\<lparr>event_task_id = updater_task_id u, event_context_id = updater_context_id u,
            event_state = Failed,
            event_message =
              Some (new_agent_text_message (''Invalid request: '' @ str_exn e) cid)\<rparr>]\<rparr>)"
  using validate_message_parts_error [OF assms] assms
  by (auto simp: process_request_def prog_defs updater_defs)

lemma create_foundry_title_agent_frame:
  "create_foundry_title_agent az s = (r, s') \<Longrightarrow>
     event_queue s' = event_queue s \<and> stdout s' = stdout s \<and> foundry_agent s' = foundry_agent s"
  by (auto simp: create_foundry_title_agent_def TitleAgent_init_def create_agent_def prog_defs
           split: sum.splits option.splits prod.splits)

lemma get_or_create_agent_frame:
  "get_or_create_agent az s = (r, s') \<Longrightarrow>
     event_queue s' = event_queue s \<and> stdout s' = stdout s"
  by (auto simp: get_or_create_agent_def split: option.splits sum.splits prod.splits
           dest: create_foundry_title_agent_frame)

lemma TitleAgent_init_queue:
  "TitleAgent_init az (s\<lparr>event_queue := q\<rparr>) =
     (fst (TitleAgent_init az s), (snd (TitleAgent_init az s))\<lparr>event_queue := q\<rparr>)"
  by (simp add: TitleAgent_init_def prog_defs split: sum.splits)

lemma create_agent_queue:
  "create_agent az self (s\<lparr>event_queue := q\<rparr>) =
     (fst (create_agent az self s), (snd (create_agent az self s))\<lparr>event_queue := q\<rparr>)"
  by (simp add: create_agent_def prog_defs split: sum.splits option.splits)

lemma create_foundry_title_agent_queue:
  "create_foundry_title_agent az (s\<lparr>event_queue := q\<rparr>) =
     (fst (create_foundry_title_agent az s),
      (snd (create_foundry_title_agent az s))\<lparr>event_queue := q\<rparr>)"
  unfolding create_foundry_title_agent_def seq_def
  by (simp add: TitleAgent_init_queue create_agent_queue return_value_def
           split: sum.splits prod.splits)

text \<open>Obtaining the agent neither reads nor writes the event queue.\<close>

lemma get_or_create_agent_queue:
  "get_or_create_agent az (s\<lparr>event_queue := q\<rparr>) =
     (fst (get_or_create_agent az s), (snd (get_or_create_agent az s))\<lparr>event_queue := q\<rparr>)"
  unfolding get_or_create_agent_def
  by (simp add: create_foundry_title_agent_queue split: option.splits sum.splits prod.splits)

text \<open>A cached agent is returned as it is, with no call to the service.\<close>

lemma get_or_create_agent_cached:
  "foundry_agent s = Some a \<Longrightarrow> get_or_create_agent az s = (Inr a, s)"
  by (simp add: get_or_create_agent_def)

text \<open>
  Run one call after another: once a call has obtained an agent, every later call
  returns the same agent and calls the service no more. (A factory that raised
  has stored nothing, so the next call invokes it again.)
\<close>

lemma get_or_create_agent_once:
  assumes "get_or_create_agent az s = (Inr a, s1)"
  shows "get_or_create_agent az' s1 = (Inr a, s1)"
proof -
  from assms have "foundry_agent s1 = Some a"
    by (auto simp: get_or_create_agent_def split: option.splits sum.splits prod.splits)
  then show ?thesis by (rule get_or_create_agent_cached)
qed

text \<open>\<^verbatim>\<open>execute\<close> is \<^verbatim>\<open>_process_request\<close> run after the two events of lines 128 and 131.\<close>

lemma execute_unfold:
  "execute g az context s =
     process_request g az (message context) (context_id context)
       \<lparr>updater_task_id = task_id context, updater_context_id = context_id context\<rparr>
       (s\<lparr>event_queue := event_queue s @
            [\<lparr>event_task_id = task_id context, event_context_id = context_id context,
              event_state = Submitted, event_message = None\<rparr>,
             \<lparr>event_task_id = task_id context, event_context_id = context_id context,
              event_state = Working, event_message = None\<rparr>]\<rparr>)"
  by (simp add: execute_def Let_def prog_defs updater_defs)

text \<open>The four ways \<^verbatim>\<open>_process_request\<close> ends once validation has passed.\<close>

lemma process_request_factory_raises:
  assumes "validate_message_parts parts = Inr user_message"
      and "get_or_create_agent az s = (Inl e, s1)"
  shows "process_request g az parts cid u s =
     (Inr (),
      s1\<lparr>event_queue := event_queue s @
             [\<lparr>event_task_id = updater_task_id u, event_context_id = updater_context_id u,
               event_state = Failed,
               event_message =
                 Some (new_agent_text_message
                   (if isinstance_ValueError e then ''Invalid request: '' @ str_exn e
                    else ''Title Agent failed to process the request.'') cid)\<rparr>],
         stdout := stdout s @
             [(if isinstance_ValueError e then ''Title Agent: Validation error - ''
               else ''Title Agent: Error processing request - '') @ str_exn e]\<rparr>)"
  using assms get_or_create_agent_frame [OF assms(2)]
  by (simp add: process_request_def prog_defs updater_defs)

lemma process_request_worker_raises:
  assumes "validate_message_parts parts = Inr user_message"
      and "get_or_create_agent az s = (Inr a, s1)"
      and "g a user_message = Inl e" and "\<not> isinstance_ValueError e"
  shows "process_request g az parts cid u s =
     (Inr (),
      s1\<lparr>event_queue := event_queue s @
             [\<lparr>event_task_id = updater_task_id u, event_context_id = updater_context_id u,
               event_state = Working, event_message = None\<rparr>,
              \<lparr>event_task_id = updater_task_id u, event_context_id = updater_context_id u,
               event_state = Failed,
               event_message =
                 Some (new_agent_text_message ''Title Agent failed to process the request.'' cid)\<rparr>],
         stdout := stdout s @ [''Title Agent: Error processing request - '' @ str_exn e]\<rparr>)"
  using assms get_or_create_agent_frame [OF assms(2)]
  by (simp add: process_request_def prog_defs updater_defs)

text \<open>
  A \<open>ValueError\<close> raised inside the worker call is caught by the first handler,
  the one written for validation errors, and its text is published.
\<close>

lemma process_request_worker_raises_ValueError:
  assumes "validate_message_parts parts = Inr user_message"
      and "get_or_create_agent az s = (Inr a, s1)"
      and "g a user_message = Inl e" and "isinstance_ValueError e"
  shows "process_request g az parts cid u s =
     (Inr (),
      s1\<lparr>event_queue := event_queue s @
             [\<lparr>event_task_id = updater_task_id u, event_context_id = updater_context_id u,
               event_state = Working, event_message = None\<rparr>,
              \<lparr>event_task_id = updater_task_id u, event_context_id = updater_context_id u,
               event_state = Failed,
               event_message =
                 Some (new_agent_text_message (''Invalid request: '' @ str_exn e) cid)\<rparr>],
         stdout := stdout s @ [''Title Agent: Validation error - '' @ str_exn e]\<rparr>)"
  using assms get_or_create_agent_frame [OF assms(2)]
  by (simp add: process_request_def prog_defs updater_defs)

text \<open>
  Had the worker call returned a response, lines 95 to 97 would publish it as the
  completed result: the control flow around the call is the intended one.
\<close>

lemma process_request_worker_returns:
  assumes "validate_message_parts parts = Inr user_message"
      and "get_or_create_agent az s = (Inr a, s1)"
      and "g a user_message = Inr response"
  shows "process_request g az parts cid u s =
     (Inr (),
      s1\<lparr>event_queue := event_queue s @
             [\<lparr>event_task_id = updater_task_id u, event_context_id = updater_context_id u,
               event_state = Working, event_message = None\<rparr>,
              \<lparr>event_task_id = updater_task_id u, event_context_id = updater_context_id u,
               event_state = Completed,
               event_message = Some (new_agent_text_message response cid)\<rparr>]\<rparr>)"
  using assms get_or_create_agent_frame [OF assms(2)]
  by (simp add: process_request_def prog_defs updater_defs)

text \<open>\<^verbatim>\<open>_process_request\<close> only appends to the event queue.\<close>

lemma process_request_appends:
  "\<exists>rest. event_queue (snd (process_request g az parts cid u s)) = event_queue s @ rest"
proof (cases "validate_message_parts parts")
  case (Inl e)
  then show ?thesis by (simp add: process_request_invalid)
next
  case (Inr user_message)
  obtain r s1 where a: "get_or_create_agent az s = (r, s1)" by (cases "get_or_create_agent az s")
  show ?thesis
  proof (cases r)
    case (Inl e)
    with a Inr show ?thesis
      by (simp add: process_request_factory_raises [where e = e and ?s1.0 = s1])
  next
    case ag: (Inr a')
    show ?thesis
    proof (cases "g a' user_message")
      case (Inl e)
      show ?thesis
      proof (cases "isinstance_ValueError e")
        case True
        with a Inr ag Inl show ?thesis
          by (simp add: process_request_worker_raises_ValueError
                [where g = g and a = a' and e = e and ?s1.0 = s1 and user_message = user_message])
      next
        case False
        with a Inr ag Inl show ?thesis
          by (simp add: process_request_worker_raises
                [where g = g and a = a' and e = e and ?s1.0 = s1 and user_message = user_message])
      qed
    next
      case resp: (Inr response)
      with a Inr ag show ?thesis
        by (simp add: process_request_worker_returns
              [where g = g and a = a' and response = response and ?s1.0 = s1 and user_message = user_message])
    qed
  qed
qed

text \<open>The states an execution publishes, in order.\<close>

lemma process_request_states:
  "map event_state (event_queue (snd (process_request g az parts cid u s))) =
     map event_state (event_queue s) @ [Failed]
   \<or> map event_state (event_queue (snd (process_request g az parts cid u s))) =
     map event_state (event_queue s) @ [Working, Failed]
   \<or> (map event_state (event_queue (snd (process_request g az parts cid u s))) =
     map event_state (event_queue s) @ [Working, Completed]
     \<and> (\<exists>a m r. g a m = Inr r))"
proof (cases "validate_message_parts parts")
  case (Inl e)
  then show ?thesis by (simp add: process_request_invalid)
next
  case (Inr user_message)
  obtain r s1 where a: "get_or_create_agent az s = (r, s1)" by (cases "get_or_create_agent az s")
  show ?thesis
  proof (cases r)
    case (Inl e)
    with a Inr show ?thesis
      by (simp add: process_request_factory_raises [where e = e and ?s1.0 = s1])
  next
    case ag: (Inr a')
    show ?thesis
    proof (cases "g a' user_message")
      case (Inl e)
      show ?thesis
      proof (cases "isinstance_ValueError e")
        case True
        with a Inr ag Inl show ?thesis
          by (simp add: process_request_worker_raises_ValueError
                [where g = g and a = a' and e = e and ?s1.0 = s1 and user_message = user_message])
      next
        case False
        with a Inr ag Inl show ?thesis
          by (simp add: process_request_worker_raises
                [where g = g and a = a' and e = e and ?s1.0 = s1 and user_message = user_message])
      qed
    next
      case resp: (Inr response)
      then have "\<exists>a m r. g a m = Inr r" by blast
      with a Inr ag resp show ?thesis
        by (simp add: process_request_worker_returns
              [where g = g and a = a' and response = response and ?s1.0 = s1 and user_message = user_message])
    qed
  qed
qed

lemma execute_states:
  "map event_state (event_queue (snd (execute g az context s))) =
     map event_state (event_queue s) @ [Submitted, Working, Failed]
   \<or> map event_state (event_queue (snd (execute g az context s))) =
     map event_state (event_queue s) @ [Submitted, Working, Working, Failed]
   \<or> (map event_state (event_queue (snd (execute g az context s))) =
     map event_state (event_queue s) @ [Submitted, Working, Working, Completed]
     \<and> (\<exists>a m r. g a m = Inr r))"
  unfolding execute_unfold
  using process_request_states [of g az "message context" "context_id context"
     "\<lparr>updater_task_id = task_id context, updater_context_id = context_id context\<rparr>"
     "s\<lparr>event_queue := event_queue s @
            [\<lparr>event_task_id = task_id context, event_context_id = context_id context,
              event_state = Submitted, event_message = None\<rparr>,
             \<lparr>event_task_id = task_id context, event_context_id = context_id context,
              event_state = Working, event_message = None\<rparr>]\<rparr>"]
  by auto

text \<open>With the agent class of agent.py no execution publishes a completed event.\<close>

lemma execute_never_completes:
  "map event_state (event_queue (snd (execute TitleAgent_generate_title az context s))) =
     map event_state (event_queue s) @ [Submitted, Working, Failed]
   \<or> map event_state (event_queue (snd (execute TitleAgent_generate_title az context s))) =
     map event_state (event_queue s) @ [Submitted, Working, Working, Failed]"
  using execute_states [of TitleAgent_generate_title az "context" s]
  by (auto simp: TitleAgent_generate_title_def)

text \<open>Facts about the concrete request and service.\<close>

lemma title_request_valid:
  "validate_message_parts (message title_request) = Inr ''Generate a title for a blog about AI''"
  by (simp add: validate_message_parts_def title_request_def)

lemma azure_ok_agent:
  "get_or_create_agent azure_ok initial_state =
     (Inr \<lparr>client = \<lparr>endpoint = Some ''value''\<rparr>, agent = Some \<lparr>agent_id = ''asst-1''\<rparr>\<rparr>,
      \<lparr>foundry_agent =
         Some \<lparr>client = \<lparr>endpoint = Some ''value''\<rparr>, agent = Some \<lparr>agent_id = ''asst-1''\<rparr>\<rparr>,
       event_queue = [], stdout = [], calls = [Call_AgentsClient, Call_create_agent]\<rparr>)"
  by (simp add: get_or_create_agent_def create_foundry_title_agent_def TitleAgent_init_def
        create_agent_def prog_defs azure_ok_def initial_state_def)

lemma initial_state_fields:
  "foundry_agent initial_state = None" "event_queue initial_state = []"
  "stdout initial_state = []" "calls initial_state = []"
  by (simp_all add: initial_state_def)

lemma title_request_execution:
  "execute TitleAgent_generate_title azure_ok title_request initial_state =
     (Inr (),
      \<lparr>foundry_agent =
         Some \<lparr>client = \<lparr>endpoint = Some ''value''\<rparr>, agent = Some \<lparr>agent_id = ''asst-1''\<rparr>\<rparr>,
       event_queue =
         [\<lparr>event_task_id = ''task-1'', event_context_id = ''ctx-1'',
           event_state = Submitted, event_message = None\<rparr>,
          \<lparr>event_task_id = ''task-1'', event_context_id = ''ctx-1'',
           event_state = Working, event_message = None\<rparr>,
          \<lparr>event_task_id = ''task-1'', event_context_id = ''ctx-1'',
           event_state = Working, event_message = None\<rparr>,
          \<lparr>event_task_id = ''task-1'', event_context_id = ''ctx-1'',
           event_state = Failed,
           event_message =
             Some \<lparr>message_text = ''Title Agent failed to process the request.'',
                   message_context_id = ''ctx-1''\<rparr>\<rparr>],
       stdout =
         [''Title Agent: Error processing request - TitleAgent object has no attribute generate_title''],
       calls = [Call_AgentsClient, Call_create_agent]\<rparr>)"
proof -
  define q where "q = event_queue initial_state @
            [\<lparr>event_task_id = task_id title_request, event_context_id = context_id title_request,
              event_state = Submitted, event_message = None\<rparr>,
             \<lparr>event_task_id = task_id title_request, event_context_id = context_id title_request,
              event_state = Working, event_message = None\<rparr>]"
  let ?a = "\<lparr>client = \<lparr>endpoint = Some ''value''\<rparr>, agent = Some \<lparr>agent_id = ''asst-1''\<rparr>\<rparr>"
  let ?s1 = "\<lparr>foundry_agent = Some ?a,
       event_queue = [], stdout = [], calls = [Call_AgentsClient, Call_create_agent]\<rparr>"
  have agent: "get_or_create_agent azure_ok (initial_state\<lparr>event_queue := q\<rparr>) =
      (Inr ?a, ?s1\<lparr>event_queue := q\<rparr>)"
    by (simp add: get_or_create_agent_queue azure_ok_agent)
  have g: "TitleAgent_generate_title ?a ''Generate a title for a blog about AI'' =
      Inl (AttributeError ''TitleAgent object has no attribute generate_title'')"
    by (simp add: TitleAgent_generate_title_def)
  have n: "\<not> isinstance_ValueError (AttributeError ''TitleAgent object has no attribute generate_title'')"
    by simp
  have ex: "execute TitleAgent_generate_title azure_ok title_request initial_state =
     process_request TitleAgent_generate_title azure_ok (message title_request) (context_id title_request)
       \<lparr>updater_task_id = task_id title_request, updater_context_id = context_id title_request\<rparr>
       (initial_state\<lparr>event_queue := q\<rparr>)"
    unfolding q_def by (rule execute_unfold)
  show ?thesis
    unfolding ex
    using process_request_worker_raises [where g = TitleAgent_generate_title and a = ?a
        and e = "AttributeError ''TitleAgent object has no attribute generate_title''",
        OF title_request_valid agent g n]
    by (simp add: q_def initial_state_fields title_request_def new_agent_text_message_def)
qed

lemma run_conversation_azure_ok:
  "fst (run_conversation azure_ok
          \<lparr>client = \<lparr>endpoint = Some ''value''\<rparr>, agent = Some \<lparr>agent_id = ''asst-1''\<rparr>\<rparr>
          ''Generate a title for a blog about AI'' s) =
     Inr ([''AI Today''],
          \<lparr>client = \<lparr>endpoint = Some ''value''\<rparr>, agent = Some \<lparr>agent_id = ''asst-1''\<rparr>\<rparr>)"
  by (simp add: run_conversation_def prog_defs azure_ok_def)

text \<open>\<^verbatim>\<open>run_conversation\<close> as a function of the outcomes of the service calls.\<close>

lemma collect_responses_find:
  "collect_responses messages =
     (case find (\<lambda>msg. role msg = AGENT \<and> text_messages msg \<noteq> []) messages of
        None \<Rightarrow> []
      | Some msg \<Rightarrow> map text_value (text_messages msg))"
  by (induction messages) simp_all

lemma responses_or_default:
  "(if collect_responses messages \<noteq> [] then collect_responses messages else [d]) =
     (case find (\<lambda>msg. role msg = AGENT \<and> text_messages msg \<noteq> []) messages of
        None \<Rightarrow> [d]
      | Some msg \<Rightarrow> map text_value (text_messages msg))"
  by (induction messages) (auto split: if_splits)

lemma run_conversation_outcome:
  "fst (run_conversation az self user_message s) =
     (case (case agent self of
              Some a \<Rightarrow> Inr a
            | None \<Rightarrow> client_create_agent az (getenv az ''MODEL_DEPLOYMENT_NAME'')
                        ''title-agent'' title_agent_instructions) of
        Inl e \<Rightarrow> Inl e
      | Inr a \<Rightarrow>
     (case threads_create az of
        Inl e \<Rightarrow> Inl e
      | Inr thread \<Rightarrow>
     (case messages_create az (thread_id thread) USER user_message of
        Inl e \<Rightarrow> Inl e
      | Inr u \<Rightarrow>
     (case runs_create_and_process az (thread_id thread) (agent_id a) of
        Inl e \<Rightarrow> Inl e
      | Inr run \<Rightarrow>
          if status run = ''failed''
          then Inr ([''Error: '' @ last_error run], self\<lparr>agent := Some a\<rparr>)
          else
            (case messages_list az (thread_id thread) DESCENDING of
               Inl e \<Rightarrow> Inl e
             | Inr messages \<Rightarrow>
                 Inr (if collect_responses messages \<noteq> [] then collect_responses messages
                      else [''No response received''], self\<lparr>agent := Some a\<rparr>))))))"
  unfolding run_conversation_def create_agent_def prog_defs Let_def
  by (simp split: option.splits sum.splits prod.splits)


lemma run_stages_Cons_fails:
  "p c = Inl e \<Longrightarrow> run_stages i (p # ps) c = ([], Some e)"
  by simp










section \<open>Cancellation\<close>

text \<open>
  C6. For every request context and every state the task may be in (whatever
  events were published before, whether or not an agent is cached, whatever calls
  to the service were made), \<open>cancel\<close> returns normally and publishes exactly one
  further event for the task of the context: state \<open>failed\<close>, with the notice
  \<open>Task cancelled by user\<close>. It writes one line to standard output and changes
  nothing else: the cached agent is untouched and no call to the service is made,
  so a worker call in flight is not interrupted.
\<close>

theorem cancel_publishes_failed:
  "cancel context s =
     (Inr (),
      s\<lparr>stdout := stdout s @
          [''Title Agent: Cancelling execution for context '' @ context_id context],
        event_queue := event_queue s @
          [\<lparr>event_task_id = task_id context, event_context_id = context_id context,
            event_state = Failed,
            event_message =
              Some (new_agent_text_message ''Task cancelled by user'' (context_id context))\<rparr>]\<rparr>)
   \<and> foundry_agent (snd (cancel context s)) = foundry_agent s
   \<and> calls (snd (cancel context s)) = calls s"
  by (simp add: cancel_def prog_defs updater_defs)

section \<open>Worker failures\<close>


text \<open>
  For errors of every other class the property holds. Take a request that passes
  validation and for which the agent is obtained, and let the worker call raise
  an exception that is not a \<open>ValueError\<close>. Then \<open>execute\<close> returns normally and
  the task ends in \<open>failed\<close>: the events published are submitted, working,
  working and failed with the fixed message
  \<open>Title Agent failed to process the request.\<close>. The published events are the
  same for any two such errors; the text of the error reaches standard output
  only.
\<close>

theorem opaque_worker_error_hidden:
  assumes "validate_message_parts (message context) = Inr user_message"
      and "get_or_create_agent az s = (Inr a, s1)"
      and "g1 a user_message = Inl e1" and "\<not> isinstance_ValueError e1"
      and "g2 a user_message = Inl e2" and "\<not> isinstance_ValueError e2"
  shows "fst (execute g1 az context s) = Inr ()
       \<and> event_queue (snd (execute g1 az context s)) =
           event_queue s @
             [\<lparr>event_task_id = task_id context, event_context_id = context_id context,
               event_state = Submitted, event_message = None\<rparr>,
              \<lparr>event_task_id = task_id context, event_context_id = context_id context,
               event_state = Working, event_message = None\<rparr>,
              \<lparr>event_task_id = task_id context, event_context_id = context_id context,
               event_state = Working, event_message = None\<rparr>,
              \<lparr>event_task_id = task_id context, event_context_id = context_id context,
               event_state = Failed,
               event_message =
                 Some (new_agent_text_message ''Title Agent failed to process the request.''
                         (context_id context))\<rparr>]
       \<and> event_queue (snd (execute g1 az context s)) = event_queue (snd (execute g2 az context s))
       \<and> stdout (snd (execute g1 az context s)) =
           stdout s @ [''Title Agent: Error processing request - '' @ str_exn e1]"
proof -
  define q where "q = event_queue s @
            [\<lparr>event_task_id = task_id context, event_context_id = context_id context,
              event_state = Submitted, event_message = None\<rparr>,
             \<lparr>event_task_id = task_id context, event_context_id = context_id context,
              event_state = Working, event_message = None\<rparr>]"
  have agent: "get_or_create_agent az (s\<lparr>event_queue := q\<rparr>) = (Inr a, s1\<lparr>event_queue := q\<rparr>)"
    by (simp add: get_or_create_agent_queue assms(2))
  have ex: "execute g az context s =
     process_request g az (message context) (context_id context)
       \<lparr>updater_task_id = task_id context, updater_context_id = context_id context\<rparr>
       (s\<lparr>event_queue := q\<rparr>)" for g
    unfolding q_def by (rule execute_unfold)
  have r1: "execute g1 az context s = (Inr (),
      s1\<lparr>event_queue := q @
             [\<lparr>event_task_id = task_id context, event_context_id = context_id context,
               event_state = Working, event_message = None\<rparr>,
              \<lparr>event_task_id = task_id context, event_context_id = context_id context,
               event_state = Failed,
               event_message =
                 Some (new_agent_text_message ''Title Agent failed to process the request.'' (context_id context))\<rparr>],
         stdout := stdout s @ [''Title Agent: Error processing request - '' @ str_exn e1]\<rparr>)"
    unfolding ex
    using process_request_worker_raises [where g = g1 and a = a and e = e1, OF assms(1) agent assms(3) assms(4)]
    by simp
  have r2: "execute g2 az context s = (Inr (),
      s1\<lparr>event_queue := q @
             [\<lparr>event_task_id = task_id context, event_context_id = context_id context,
               event_state = Working, event_message = None\<rparr>,
              \<lparr>event_task_id = task_id context, event_context_id = context_id context,
               event_state = Failed,
               event_message =
                 Some (new_agent_text_message ''Title Agent failed to process the request.'' (context_id context))\<rparr>],
         stdout := stdout s @ [''Title Agent: Error processing request - '' @ str_exn e2]\<rparr>)"
    unfolding ex
    using process_request_worker_raises [where g = g2 and a = a and e = e2, OF assms(1) agent assms(5) assms(6)]
    by simp
  show ?thesis
    unfolding r1 r2 by (simp add: q_def)
qed

theorem opaque_worker_error_hidden_witness:
  "map event_state
     (event_queue (snd (execute TitleAgent_generate_title azure_ok title_request initial_state))) =
     [Submitted, Working, Working, Failed]
   \<and> event_queue (snd (execute TitleAgent_generate_title azure_ok title_request initial_state)) =
      event_queue (snd (execute (\<lambda>a m. Inl (OtherException ''quota exceeded for key 42''))
                          azure_ok title_request initial_state))
   \<and> stdout (snd (execute TitleAgent_generate_title azure_ok title_request initial_state)) =
       [''Title Agent: Error processing request - TitleAgent object has no attribute generate_title'']"
proof -
  let ?a = "\<lparr>client = \<lparr>endpoint = Some ''value''\<rparr>, agent = Some \<lparr>agent_id = ''asst-1''\<rparr>\<rparr>"
  let ?m = "''Generate a title for a blog about AI''"
  let ?g = "\<lambda>(a::TitleAgent) (m::string). (Inl (OtherException ''quota exceeded for key 42'') :: exn + string)"
  have g1: "TitleAgent_generate_title ?a ?m =
      Inl (AttributeError ''TitleAgent object has no attribute generate_title'')"
    by (simp add: TitleAgent_generate_title_def)
  have g2: "?g ?a ?m = Inl (OtherException ''quota exceeded for key 42'')"
    by simp
  have n1: "\<not> isinstance_ValueError (AttributeError ''TitleAgent object has no attribute generate_title'')"
    by simp
  have n2: "\<not> isinstance_ValueError (OtherException ''quota exceeded for key 42'')"
    by simp
  note h = opaque_worker_error_hidden [where ?g1.0 = TitleAgent_generate_title and ?g2.0 = ?g
        and a = ?a and user_message = ?m, OF title_request_valid azure_ok_agent g1 n1 g2 n2]
  note h1 = h [THEN conjunct2, THEN conjunct1]
  note h2 = h [THEN conjunct2, THEN conjunct2, THEN conjunct1]
  note h3 = h [THEN conjunct2, THEN conjunct2, THEN conjunct2]
  have ev: "map event_state
     (event_queue (snd (execute TitleAgent_generate_title azure_ok title_request initial_state))) =
     [Submitted, Working, Working, Failed]"
    unfolding h1 by (simp add: initial_state_fields)
  have st: "stdout (snd (execute TitleAgent_generate_title azure_ok title_request initial_state)) =
       [''Title Agent: Error processing request - TitleAgent object has no attribute generate_title'']"
    unfolding h3 by (simp add: initial_state_fields)
  from ev h2 st show ?thesis by (intro conjI)
qed

section \<open>Validation\<close>

text \<open>
  C2. Validation of the message parts fails exactly when the list is empty or its
  first part carries no text (no root, no text, or an empty text). Every error it
  raises is a \<open>ValueError\<close>, and then \<^verbatim>\<open>_process_request\<close> publishes one event,
  \<open>failed\<close> with the message \<open>Invalid request: \<close> followed by the error text,
  and does nothing else besides printing: the cached agent is unchanged and no
  call to the service is made, so the worker is neither obtained nor invoked
  (the result does not depend on the worker at all).
\<close>

theorem validation_failure:
  "((\<exists>e. validate_message_parts parts = Inl e) \<longleftrightarrow>
      (case parts of [] \<Rightarrow> True | p # ps \<Rightarrow> \<not> carries_text p))
   \<and> (\<forall>e. validate_message_parts parts = Inl e \<longrightarrow>
        isinstance_ValueError e
        \<and> process_request g az parts cid u s =
           (Inr (),
            s\<lparr>stdout := stdout s @ [''Title Agent: Validation error - '' @ str_exn e],
              event_queue := event_queue s @
                [\<lparr>event_task_id = updater_task_id u, event_context_id = updater_context_id u,
                  event_state = Failed,
                  event_message =
                    Some (new_agent_text_message (''Invalid request: '' @ str_exn e) cid)\<rparr>]\<rparr>)
        \<and> foundry_agent (snd (process_request g az parts cid u s)) = foundry_agent s
        \<and> calls (snd (process_request g az parts cid u s)) = calls s)"
proof -
  have iff: "(\<exists>e. validate_message_parts parts = Inl e) \<longleftrightarrow>
      (case parts of [] \<Rightarrow> True | p # ps \<Rightarrow> \<not> carries_text p)"
    by (auto simp: validate_message_parts_def carries_text_def
             split: list.splits option.splits if_splits)
  have rest: "isinstance_ValueError e
        \<and> process_request g az parts cid u s =
           (Inr (),
            s\<lparr>stdout := stdout s @ [''Title Agent: Validation error - '' @ str_exn e],
              event_queue := event_queue s @
                [\<lparr>event_task_id = updater_task_id u, event_context_id = updater_context_id u,
                  event_state = Failed,
                  event_message =
                    Some (new_agent_text_message (''Invalid request: '' @ str_exn e) cid)\<rparr>]\<rparr>)
        \<and> foundry_agent (snd (process_request g az parts cid u s)) = foundry_agent s
        \<and> calls (snd (process_request g az parts cid u s)) = calls s"
    if "validate_message_parts parts = Inl e" for e
    using validate_message_parts_error [OF that] process_request_invalid [OF that, of g az cid u s]
    by auto
  from iff rest show ?thesis by blast
qed

theorem validation_failure_witness:
  "validate_message_parts [] = Inl (ValueError ''No message parts provided'')
   \<and> event_queue (snd (process_request TitleAgent_generate_title azure_ok [] ''ctx-2''
        \<lparr>updater_task_id = ''task-2'', updater_context_id = ''ctx-2''\<rparr> initial_state)) =
       [\<lparr>event_task_id = ''task-2'', event_context_id = ''ctx-2'', event_state = Failed,
         event_message = Some \<lparr>message_text = ''Invalid request: No message parts provided'',
                                message_context_id = ''ctx-2''\<rparr>\<rparr>]
   \<and> foundry_agent (snd (process_request TitleAgent_generate_title azure_ok [] ''ctx-2''
        \<lparr>updater_task_id = ''task-2'', updater_context_id = ''ctx-2''\<rparr> initial_state)) = None
   \<and> calls (snd (process_request TitleAgent_generate_title azure_ok [] ''ctx-2''
        \<lparr>updater_task_id = ''task-2'', updater_context_id = ''ctx-2''\<rparr> initial_state)) = []"
proof -
  have v: "validate_message_parts [] = Inl (ValueError ''No message parts provided'')"
    by (simp add: validate_message_parts_def)
  note h = validation_failure [where parts = "[]" and g = TitleAgent_generate_title
      and az = azure_ok and cid = "''ctx-2''"
      and u = "\<lparr>updater_task_id = ''task-2'', updater_context_id = ''ctx-2''\<rparr>"
      and s = initial_state, THEN conjunct2, rule_format, OF v]
  note h2 = h [THEN conjunct2, THEN conjunct1]
  note h3 = h [THEN conjunct2, THEN conjunct2, THEN conjunct1]
  note h4 = h [THEN conjunct2, THEN conjunct2, THEN conjunct2]
  have q: "event_queue (snd (process_request TitleAgent_generate_title azure_ok [] ''ctx-2''
        \<lparr>updater_task_id = ''task-2'', updater_context_id = ''ctx-2''\<rparr> initial_state)) =
       [\<lparr>event_task_id = ''task-2'', event_context_id = ''ctx-2'', event_state = Failed,
         event_message = Some \<lparr>message_text = ''Invalid request: No message parts provided'',
                                message_context_id = ''ctx-2''\<rparr>\<rparr>]"
    unfolding h2 by (simp add: initial_state_fields new_agent_text_message_def)
  from v q h3 h4 show ?thesis by (simp add: initial_state_fields)
qed

section \<open>The start of every execution\<close>

text \<open>
  C9. Every call to \<open>execute\<close> publishes a submitted event and then a working
  event before \<^verbatim>\<open>_process_request\<close>, and with it the validation, starts: the
  call equals \<^verbatim>\<open>_process_request\<close> run in the state that already holds the two
  events, and whatever follows is appended after them. A request that fails
  validation therefore shows the states submitted, working, failed.
\<close>

theorem execute_submitted_working_first:
  "execute g az context s =
     process_request g az (message context) (context_id context)
       \<lparr>updater_task_id = task_id context, updater_context_id = context_id context\<rparr>
       (s\<lparr>event_queue := event_queue s @
            [\<lparr>event_task_id = task_id context, event_context_id = context_id context,
              event_state = Submitted, event_message = None\<rparr>,
             \<lparr>event_task_id = task_id context, event_context_id = context_id context,
              event_state = Working, event_message = None\<rparr>]\<rparr>)
   \<and> (\<exists>rest. event_queue (snd (execute g az context s)) =
         event_queue s @
            [\<lparr>event_task_id = task_id context, event_context_id = context_id context,
              event_state = Submitted, event_message = None\<rparr>,
             \<lparr>event_task_id = task_id context, event_context_id = context_id context,
              event_state = Working, event_message = None\<rparr>] @ rest)
   \<and> (\<forall>e. validate_message_parts (message context) = Inl e \<longrightarrow>
         map event_state (event_queue (snd (execute g az context s))) =
           map event_state (event_queue s) @ [Submitted, Working, Failed])"
proof -
  define u where "u = \<lparr>updater_task_id = task_id context, updater_context_id = context_id context\<rparr>"
  define s0 where "s0 = s\<lparr>event_queue := event_queue s @
            [\<lparr>event_task_id = task_id context, event_context_id = context_id context,
              event_state = Submitted, event_message = None\<rparr>,
             \<lparr>event_task_id = task_id context, event_context_id = context_id context,
              event_state = Working, event_message = None\<rparr>]\<rparr>"
  have ex: "execute g az context s =
     process_request g az (message context) (context_id context) u s0"
    unfolding u_def s0_def by (rule execute_unfold)
  obtain rest where "event_queue (snd (process_request g az (message context) (context_id context) u s0))
      = event_queue s0 @ rest"
    using process_request_appends by blast
  then have pre: "\<exists>rest. event_queue (snd (execute g az context s)) =
         event_queue s @
            [\<lparr>event_task_id = task_id context, event_context_id = context_id context,
              event_state = Submitted, event_message = None\<rparr>,
             \<lparr>event_task_id = task_id context, event_context_id = context_id context,
              event_state = Working, event_message = None\<rparr>] @ rest"
    by (simp add: ex s0_def)
  have inv: "map event_state (event_queue (snd (execute g az context s))) =
           map event_state (event_queue s) @ [Submitted, Working, Failed]"
    if "validate_message_parts (message context) = Inl e" for e
    by (simp add: ex process_request_invalid [OF that] s0_def)
  from ex pre inv show ?thesis unfolding u_def s0_def by blast
qed

theorem execute_submitted_working_first_witness:
  "validate_message_parts (message empty_request) = Inl (ValueError ''No message parts provided'')
   \<and> map event_state
        (event_queue (snd (execute TitleAgent_generate_title azure_ok empty_request initial_state))) =
       [Submitted, Working, Failed]"
proof -
  have v: "validate_message_parts (message empty_request) =
      Inl (ValueError ''No message parts provided'')"
    by (simp add: validate_message_parts_def empty_request_def)
  note h = execute_submitted_working_first
      [of TitleAgent_generate_title azure_ok empty_request initial_state,
      THEN conjunct2, THEN conjunct2, rule_format, OF v]
  have "map event_state
        (event_queue (snd (execute TitleAgent_generate_title azure_ok empty_request initial_state))) =
       [Submitted, Working, Failed]"
    unfolding h by (simp add: initial_state_fields)
  with v show ?thesis by (intro conjI)
qed

section \<open>The worker call of a valid request\<close>

text \<open>
  C1. The claim is that a request which passes validation, and whose worker
  succeeds, ends in \<open>completed\<close> with the worker's response text. The code calls
  \<^verbatim>\<open>agent.generate_title\<close>, which the class \<open>TitleAgent\<close> does not define (its
  method is \<^verbatim>\<open>run_conversation\<close>). At the request \<open>title_request\<close>, with a
  service in which every call succeeds and \<^verbatim>\<open>run_conversation\<close> would return
  \<open>AI Today\<close>, validation passes, and the events published are submitted,
  working, working and failed with the generic message: no completed event and
  no response text.
\<close>

theorem execute_title_request_fails:
  "validate_message_parts (message title_request) = Inr ''Generate a title for a blog about AI''
   \<and> fst (run_conversation azure_ok
          \<lparr>client = \<lparr>endpoint = Some ''value''\<rparr>, agent = Some \<lparr>agent_id = ''asst-1''\<rparr>\<rparr>
          ''Generate a title for a blog about AI'' initial_state) =
       Inr ([''AI Today''],
          \<lparr>client = \<lparr>endpoint = Some ''value''\<rparr>, agent = Some \<lparr>agent_id = ''asst-1''\<rparr>\<rparr>)
   \<and> map event_state
        (event_queue (snd (execute TitleAgent_generate_title azure_ok title_request initial_state))) =
       [Submitted, Working, Working, Failed]
   \<and> map event_message
        (event_queue (snd (execute TitleAgent_generate_title azure_ok title_request initial_state))) =
       [None, None, None,
        Some \<lparr>message_text = ''Title Agent failed to process the request.'',
              message_context_id = ''ctx-1''\<rparr>]"
  by (simp add: title_request_valid run_conversation_azure_ok title_request_execution)

section \<open>Paths of lifecycle events\<close>

text \<open>
  C4, as stated, fails: \<open>cancel\<close> builds a fresh updater and publishes a failed
  event without looking at the events already published. After the execution of
  \<open>title_request\<close> has ended in \<open>failed\<close>, a \<open>cancel\<close> for the same task
  publishes a second failed event, after the terminal one; the sequence is not a
  path of the transition table.
\<close>

theorem execute_then_cancel_counterexample:
  "map event_state
     (event_queue (snd (cancel title_request
        (snd (execute TitleAgent_generate_title azure_ok title_request initial_state))))) =
     [Submitted, Working, Working, Failed, Failed]
   \<and> \<not> valid_path None
         (map event_state
            (event_queue (snd (cancel title_request
               (snd (execute TitleAgent_generate_title azure_ok title_request initial_state))))))"
proof -
  have "map event_state
     (event_queue (snd (cancel title_request
        (snd (execute TitleAgent_generate_title azure_ok title_request initial_state))))) =
     [Submitted, Working, Working, Failed, Failed]"
    by (simp add: title_request_execution cancel_def prog_defs updater_defs)
  then show ?thesis by simp
qed

text \<open>
  C4, amended. The events that one call of \<open>execute\<close> publishes on an empty event
  queue form a valid path of the transition table: submitted, working, possibly
  working again, then exactly one terminal event (failed or completed), which is
  the last event. \<open>cancel\<close> consults no task state: in every state it appends one
  failed event to the events already published, also after a terminal event.
\<close>

theorem execute_events_valid_path:
  assumes "event_queue s = []"
  shows "valid_path None (map event_state (event_queue (snd (execute g az context s))))
       \<and> (\<exists>before final.
             map event_state (event_queue (snd (execute g az context s))) = before @ [final]
             \<and> terminal final \<and> \<not> list_ex terminal before)
       \<and> map event_state (event_queue (snd (cancel context' s'))) =
           map event_state (event_queue s') @ [Failed]
       \<and> (map event_state (event_queue (snd (execute g az context s))) =
             [Submitted, Working, Failed]
          \<or> map event_state (event_queue (snd (execute g az context s))) =
             [Submitted, Working, Working, Failed]
          \<or> map event_state (event_queue (snd (execute g az context s))) =
             [Submitted, Working, Working, Completed])"
proof -
  have c: "map event_state (event_queue (snd (cancel context' s'))) =
           map event_state (event_queue s') @ [Failed]"
    by (simp add: cancel_def prog_defs updater_defs)
  let ?xs = "map event_state (event_queue (snd (execute g az context s)))"
  from execute_states [of g az "context" s] assms
  have shapes: "?xs = [Submitted, Working, Failed] \<or> ?xs = [Submitted, Working, Working, Failed]
    \<or> ?xs = [Submitted, Working, Working, Completed]"
    by auto
  then consider "?xs = [Submitted, Working, Failed]" | "?xs = [Submitted, Working, Working, Failed]"
    | "?xs = [Submitted, Working, Working, Completed]"
    by blast
  then have "valid_path None ?xs
       \<and> (\<exists>before final. ?xs = before @ [final] \<and> terminal final \<and> \<not> list_ex terminal before)"
  proof cases
    case 1
    have "[Submitted, Working, Failed] = [Submitted, Working] @ [Failed]
      \<and> terminal Failed \<and> \<not> list_ex terminal [Submitted, Working]" by simp
    then have "\<exists>before final. [Submitted, Working, Failed] = before @ [final]
        \<and> terminal final \<and> \<not> list_ex terminal before" by blast
    then show ?thesis unfolding 1 by simp
  next
    case 2
    have "[Submitted, Working, Working, Failed] = [Submitted, Working, Working] @ [Failed]
      \<and> terminal Failed \<and> \<not> list_ex terminal [Submitted, Working, Working]" by simp
    then have "\<exists>before final. [Submitted, Working, Working, Failed] = before @ [final]
        \<and> terminal final \<and> \<not> list_ex terminal before" by blast
    then show ?thesis unfolding 2 by simp
  next
    case 3
    have "[Submitted, Working, Working, Completed] = [Submitted, Working, Working] @ [Completed]
      \<and> terminal Completed \<and> \<not> list_ex terminal [Submitted, Working, Working]" by simp
    then have "\<exists>before final. [Submitted, Working, Working, Completed] = before @ [final]
        \<and> terminal final \<and> \<not> list_ex terminal before" by blast
    then show ?thesis unfolding 3 by simp
  qed
  with c shapes show ?thesis by blast
qed

theorem execute_events_valid_path_witness:
  "event_queue initial_state = []
   \<and> valid_path None
        (map event_state
           (event_queue (snd (execute TitleAgent_generate_title azure_ok title_request initial_state))))
   \<and> map event_state (event_queue (snd (cancel title_request initial_state))) = [Failed]"
proof -
  have e: "event_queue initial_state = []" by (simp add: initial_state_fields)
  note h = execute_events_valid_path
      [of initial_state TitleAgent_generate_title azure_ok title_request title_request
          initial_state, OF e]
  note h1 = h [THEN conjunct1]
  note h3 = h [THEN conjunct2, THEN conjunct2, THEN conjunct1]
  have "map event_state (event_queue (snd (cancel title_request initial_state))) = [Failed]"
    unfolding h3 by (simp add: initial_state_fields)
  with e h1 show ?thesis by (intro conjI)
qed

section \<open>The result of a conversation\<close>

text \<open>
  C10. Whenever \<^verbatim>\<open>run_conversation\<close> returns, the list it returns is not empty:
  it is the one error string \<open>Error: \<close> followed by the run's last error when the
  run reports the status \<open>failed\<close>; otherwise the texts of the first listed
  message of role \<open>AGENT\<close> that has text messages; and the fixed default
  \<open>No response received\<close> when there is no such message. It returns for every
  input string as soon as no call to the service raises (an exception of the
  service is not caught in \<^verbatim>\<open>run_conversation\<close> and propagates).
\<close>

theorem run_conversation_never_empty:
  "(\<forall>rs self'. fst (run_conversation az self user_message s) = Inr (rs, self') \<longrightarrow>
      rs \<noteq> []
    \<and> (\<exists>thread (a::Agent) run.
           threads_create az = Inr thread
         \<and> runs_create_and_process az (thread_id thread) (agent_id a) = Inr run
         \<and> (if status run = ''failed'' then rs = [''Error: '' @ last_error run]
            else \<exists>messages.
                   messages_list az (thread_id thread) DESCENDING = Inr messages
                 \<and> rs = (case find (\<lambda>msg. role msg = AGENT \<and> text_messages msg \<noteq> []) messages of
                           None \<Rightarrow> [''No response received'']
                         | Some msg \<Rightarrow> map text_value (text_messages msg)))))
   \<and> ((agent self = None \<longrightarrow>
          \<not> isl (client_create_agent az (getenv az ''MODEL_DEPLOYMENT_NAME'')
                   ''title-agent'' title_agent_instructions))
       \<and> \<not> isl (threads_create az)
       \<and> (\<forall>tid. \<not> isl (messages_create az tid USER user_message))
       \<and> (\<forall>tid aid. \<not> isl (runs_create_and_process az tid aid))
       \<and> (\<forall>tid. \<not> isl (messages_list az tid DESCENDING))
       \<longrightarrow> (\<exists>rs self'. fst (run_conversation az self user_message s) = Inr (rs, self')))"
proof (intro conjI allI impI)
  fix rs self'
  assume r: "fst (run_conversation az self user_message s) = Inr (rs, self')"
  let ?created = "case agent self of
              Some a \<Rightarrow> Inr a
            | None \<Rightarrow> client_create_agent az (getenv az ''MODEL_DEPLOYMENT_NAME'')
                        ''title-agent'' title_agent_instructions"
  from r obtain a where a: "?created = Inr a"
    unfolding run_conversation_outcome by (cases ?created) simp_all
  from r a obtain thread where t: "threads_create az = Inr thread"
    unfolding run_conversation_outcome by (cases "threads_create az") simp_all
  from r a t obtain u where m: "messages_create az (thread_id thread) USER user_message = Inr u"
    unfolding run_conversation_outcome
    by (cases "messages_create az (thread_id thread) USER user_message") simp_all
  from r a t m obtain run
    where run: "runs_create_and_process az (thread_id thread) (agent_id a) = Inr run"
    unfolding run_conversation_outcome
    by (cases "runs_create_and_process az (thread_id thread) (agent_id a)") simp_all
  have body: "rs \<noteq> [] \<and> (if status run = ''failed'' then rs = [''Error: '' @ last_error run]
            else \<exists>messages.
                   messages_list az (thread_id thread) DESCENDING = Inr messages
                 \<and> rs = (case find (\<lambda>msg. role msg = AGENT \<and> text_messages msg \<noteq> []) messages of
                           None \<Rightarrow> [''No response received'']
                         | Some msg \<Rightarrow> map text_value (text_messages msg)))"
  proof (cases "status run = ''failed''")
    case True
    with r a t m run show ?thesis
      unfolding run_conversation_outcome by auto
  next
    case False
    with r a t m run obtain messages
      where l: "messages_list az (thread_id thread) DESCENDING = Inr messages"
      unfolding run_conversation_outcome
      by (cases "messages_list az (thread_id thread) DESCENDING") simp_all
    from r a t m run False l
    have rs: "rs = (if collect_responses messages \<noteq> [] then collect_responses messages
                      else [''No response received''])"
      unfolding run_conversation_outcome by simp
    then have "rs \<noteq> []" by (simp split: if_splits)
    moreover from rs
    have "rs = (case find (\<lambda>msg. role msg = AGENT \<and> text_messages msg \<noteq> []) messages of
                           None \<Rightarrow> [''No response received'']
                         | Some msg \<Rightarrow> map text_value (text_messages msg))"
      by (simp add: responses_or_default)
    ultimately show ?thesis using False l by simp
  qed
  from body show "rs \<noteq> []" by blast
  show "\<exists>thread (a::Agent) run.
           threads_create az = Inr thread
         \<and> runs_create_and_process az (thread_id thread) (agent_id a) = Inr run
         \<and> (if status run = ''failed'' then rs = [''Error: '' @ last_error run]
            else \<exists>messages.
                   messages_list az (thread_id thread) DESCENDING = Inr messages
                 \<and> rs = (case find (\<lambda>msg. role msg = AGENT \<and> text_messages msg \<noteq> []) messages of
                           None \<Rightarrow> [''No response received'']
                         | Some msg \<Rightarrow> map text_value (text_messages msg)))"
    by (intro exI conjI, rule t, rule run, rule body [THEN conjunct2])
next
  assume h: "(agent self = None \<longrightarrow>
          \<not> isl (client_create_agent az (getenv az ''MODEL_DEPLOYMENT_NAME'')
                   ''title-agent'' title_agent_instructions))
       \<and> \<not> isl (threads_create az)
       \<and> (\<forall>tid. \<not> isl (messages_create az tid USER user_message))
       \<and> (\<forall>tid aid. \<not> isl (runs_create_and_process az tid aid))
       \<and> (\<forall>tid. \<not> isl (messages_list az tid DESCENDING))"
  let ?created = "case agent self of
              Some a \<Rightarrow> Inr a
            | None \<Rightarrow> client_create_agent az (getenv az ''MODEL_DEPLOYMENT_NAME'')
                        ''title-agent'' title_agent_instructions"
  from h have "\<not> isl ?created" by (simp split: option.splits)
  then obtain a where a: "?created = Inr a" by (cases ?created) simp_all
  from h obtain thread where t: "threads_create az = Inr thread"
    by (cases "threads_create az") simp_all
  from h have "\<not> isl (messages_create az (thread_id thread) USER user_message)" by blast
  then obtain u where m: "messages_create az (thread_id thread) USER user_message = Inr u"
    by (cases "messages_create az (thread_id thread) USER user_message") simp_all
  from h have "\<not> isl (runs_create_and_process az (thread_id thread) (agent_id a))" by blast
  then obtain run where run: "runs_create_and_process az (thread_id thread) (agent_id a) = Inr run"
    by (cases "runs_create_and_process az (thread_id thread) (agent_id a)") simp_all
  from h have "\<not> isl (messages_list az (thread_id thread) DESCENDING)" by blast
  then obtain messages where l: "messages_list az (thread_id thread) DESCENDING = Inr messages"
    by (cases "messages_list az (thread_id thread) DESCENDING") simp_all
  show "\<exists>rs self'. fst (run_conversation az self user_message s) = Inr (rs, self')"
    unfolding run_conversation_outcome using a t m run l by simp
qed

theorem run_conversation_never_empty_witness:
  "fst (run_conversation azure_ok
          \<lparr>client = \<lparr>endpoint = Some ''value''\<rparr>, agent = Some \<lparr>agent_id = ''asst-1''\<rparr>\<rparr>
          ''Generate a title for a blog about AI'' initial_state) =
     Inr ([''AI Today''],
          \<lparr>client = \<lparr>endpoint = Some ''value''\<rparr>, agent = Some \<lparr>agent_id = ''asst-1''\<rparr>\<rparr>)
   \<and> [''AI Today''] \<noteq> ([] :: string list)
   \<and> \<not> isl (threads_create azure_ok)
   \<and> (\<exists>rs self'. fst (run_conversation azure_ok \<lparr>client = \<lparr>endpoint = None\<rparr>, agent = None\<rparr>
                          ''hello'' initial_state) = Inr (rs, self'))"
proof -
  note h = run_conversation_never_empty [of azure_ok
      "\<lparr>client = \<lparr>endpoint = Some ''value''\<rparr>, agent = Some \<lparr>agent_id = ''asst-1''\<rparr>\<rparr>"
      "''Generate a title for a blog about AI''" initial_state,
      THEN conjunct1, rule_format, OF run_conversation_azure_ok, THEN conjunct1]
  have pre: "(agent \<lparr>client = \<lparr>endpoint = None\<rparr>, agent = None\<rparr> = None \<longrightarrow>
          \<not> isl (client_create_agent azure_ok (getenv azure_ok ''MODEL_DEPLOYMENT_NAME'')
                   ''title-agent'' title_agent_instructions))
       \<and> \<not> isl (threads_create azure_ok)
       \<and> (\<forall>tid. \<not> isl (messages_create azure_ok tid USER ''hello''))
       \<and> (\<forall>tid aid. \<not> isl (runs_create_and_process azure_ok tid aid))
       \<and> (\<forall>tid. \<not> isl (messages_list azure_ok tid DESCENDING))"
    by (simp add: azure_ok_def)
  note b = run_conversation_never_empty [of azure_ok
      "\<lparr>client = \<lparr>endpoint = None\<rparr>, agent = None\<rparr>" "''hello''" initial_state,
      THEN conjunct2, rule_format, OF pre]
  from pre have t: "\<not> isl (threads_create azure_ok)" by blast
  from run_conversation_azure_ok [of initial_state] h t b show ?thesis by (intro conjI)
qed

section \<open>The display name of a message\<close>

text \<open>
  C8. A message that lacks an author (\<^verbatim>\<open>author_name\<close> is \<^verbatim>\<open>None\<close> or the empty
  string) is shown under a name chosen by its role: \<open>assistant\<close> for the role
  assistant, \<open>user\<close> for the role user (and for every role other than assistant).
  A message with a non-empty author name is shown under that name, unchanged.
\<close>

theorem display_name_default:
  "((author_name msg = None \<or> author_name msg = Some []) \<longrightarrow>
       (chat_role msg = Role_ASSISTANT \<longrightarrow> display_name msg = ''assistant'')
     \<and> (chat_role msg = Role_USER \<longrightarrow> display_name msg = ''user'')
     \<and> (chat_role msg \<noteq> Role_ASSISTANT \<longrightarrow> display_name msg = ''user''))
   \<and> (\<forall>n. author_name msg = Some n \<and> n \<noteq> [] \<longrightarrow> display_name msg = n)"
  by (auto simp: display_name_def)

theorem display_name_default_witness:
  "display_name \<lparr>chat_role = Role_ASSISTANT, author_name = None, chat_text = ''done''\<rparr> = ''assistant''
   \<and> display_name \<lparr>chat_role = Role_USER, author_name = None, chat_text = ''hi''\<rparr> = ''user''
   \<and> display_name \<lparr>chat_role = Role_ASSISTANT, author_name = Some ''summarizer'',
                     chat_text = ''done''\<rparr> = ''summarizer''"
proof -
  let ?a = "\<lparr>chat_role = Role_ASSISTANT, author_name = None, chat_text = ''done''\<rparr>"
  let ?u = "\<lparr>chat_role = Role_USER, author_name = None, chat_text = ''hi''\<rparr>"
  let ?s = "\<lparr>chat_role = Role_ASSISTANT, author_name = Some ''summarizer'', chat_text = ''done''\<rparr>"
  have a: "author_name ?a = None \<or> author_name ?a = Some []" by simp
  have u: "author_name ?u = None \<or> author_name ?u = Some []" by simp
  have ra: "chat_role ?a = Role_ASSISTANT" by simp
  have ru: "chat_role ?u = Role_USER" by simp
  have n: "author_name ?s = Some ''summarizer'' \<and> ''summarizer'' \<noteq> []" by simp
  note h1 = display_name_default [of ?a, THEN conjunct1, rule_format, OF a, THEN conjunct1,
      rule_format, OF ra]
  note h2 = display_name_default [of ?u, THEN conjunct1, rule_format, OF u, THEN conjunct2,
      THEN conjunct1, rule_format, OF ru]
  note h3 = display_name_default [of ?s, THEN conjunct2, rule_format, OF n]
  from h1 h2 h3 show ?thesis by (intro conjI)
qed

section \<open>The events of a pipeline run\<close>




end
